theory Spec2Isabelle
  imports Main
begin

section \<open>The inference service: \<open>Backend/ML model/ml_api.py\<close>\<close>

subsection \<open>JSON values and dictionaries\<close>

text \<open>
  The request body of \<open>/api/predict\<close> is what \<open>request.get_json()\<close> parsed: a JSON
  value. A Python \<open>dict\<close> with string keys is a map from strings; \<open>dict.get(k, d)\<close>
  is \<open>dict_get\<close>. Floating-point numbers are carried as their decimal text, since
  \<open>prepare_features\<close> only copies them.
\<close>

datatype json =
    JNull
  | JBool bool
  | JInt int
  | JFloat string
  | JStr string
  | JList "json list"
  | JDict "(string \<times> json) list"

type_synonym pydict = "string \<rightharpoonup> json"

definition dict_get :: "pydict \<Rightarrow> string \<Rightarrow> json \<Rightarrow> json" where
  "dict_get d k dflt = (case d k of None \<Rightarrow> dflt | Some v \<Rightarrow> v)"

subsection \<open>\<open>classify_yield\<close>\<close>

text \<open>The dictionary \<open>classify_yield\<close> returns always has the same four keys.\<close>

record yield_info =
  category :: string
  color :: string
  description :: string
  harvest_cycle :: int

definition classify_yield :: "int \<Rightarrow> yield_info" where
  "classify_yield hc =
     (if hc = 6 then
        \<lparr> category = ''HIGH'', color = ''#4ade80'',
          description = ''Excellent conditions! Expected high yield.'',
          harvest_cycle = hc \<rparr>
      else if hc = 5 then
        \<lparr> category = ''GOOD'', color = ''#a3e635'',
          description = ''Good conditions. Healthy yield expected.'',
          harvest_cycle = hc \<rparr>
      else if hc = 4 then
        \<lparr> category = ''MEDIUM'', color = ''#fbbf24'',
          description = ''Moderate conditions. Some adjustments recommended.'',
          harvest_cycle = hc \<rparr>
      else
        \<lparr> category = ''LOW'', color = ''#f87171'',
          description = ''Suboptimal conditions. Significant improvements needed.'',
          harvest_cycle = hc \<rparr>)"

subsection \<open>\<open>prepare_features\<close>\<close>

definition MUSHROOM_VARIETIES :: "string list" where
  "MUSHROOM_VARIETIES = [''Button'', ''Lions Mane'', ''Oyster'', ''Reishi'', ''Shiitake'']"

definition variety_key :: "string \<Rightarrow> string" where
  \<comment> \<open>the f-string \<open>f"mushroom_variety_{variety}"\<close>\<close>
  "variety_key variety = ''mushroom_variety_'' @ variety"

text \<open>
  \<open>species == variety\<close> compares a JSON value with a Python \<open>str\<close>: it is true exactly
  when the value is that string, and never raises.
\<close>

definition one_hot :: "json \<Rightarrow> pydict \<Rightarrow> string \<Rightarrow> pydict" where
  \<comment> \<open>one pass of the loop body: \<open>features[key] = 1 if species == variety else 0\<close>\<close>
  "one_hot species features variety =
     features(variety_key variety \<mapsto> JInt (if species = JStr variety then 1 else 0))"

definition prepare_features :: "pydict \<Rightarrow> pydict" where
  "prepare_features data =
     (let species = dict_get data ''species'' (JStr ''Oyster'');
          features =
            [ ''humidity_pct'' \<mapsto> dict_get data ''humidity_pct'' (JInt 85),
              ''CO2_ppm'' \<mapsto> dict_get data ''co2_ppm'' (JInt 800),
              ''substrate_moisture_pct'' \<mapsto> dict_get data ''substrate_moisture'' (JInt 65),
              ''light_lux'' \<mapsto> dict_get data ''light_lux'' (JInt 200),
              ''water_quality_index'' \<mapsto> dict_get data ''water_quality_index'' (JInt 80),
              ''temp_C'' \<mapsto> dict_get data ''temperature_c'' (JInt 22) ]
      in foldl (one_hot species) features MUSHROOM_VARIETIES)"

definition hot_varieties :: "pydict \<Rightarrow> string list" where
  \<comment> \<open>the varieties whose one-hot field is 1 in a feature dictionary\<close>
  "hot_varieties features =
     filter (\<lambda>v. features (variety_key v) = Some (JInt 1)) MUSHROOM_VARIETIES"

definition cold_varieties :: "pydict \<Rightarrow> string list" where
  \<comment> \<open>the varieties whose one-hot field is 0 in a feature dictionary\<close>
  "cold_varieties features =
     filter (\<lambda>v. features (variety_key v) = Some (JInt 0)) MUSHROOM_VARIETIES"

section \<open>The process supervisor: \<open>start_all.py\<close>\<close>

subsection \<open>Exceptions, output and effects\<close>

text \<open>
  The exceptions the library calls of the script can raise. \<open>except Exception\<close> catches
  the members of class \<open>Exception\<close>; \<open>SystemExit\<close> and \<open>KeyboardInterrupt\<close> derive from
  \<open>BaseException\<close> only, and only a bare \<open>except:\<close> catches them.
\<close>

datatype exn =
    FileNotFoundError
  | OSError string
  | OverflowError
  | Gaierror
  | URLError
  | TimeoutExpired
  | SystemExit int
  | KeyboardInterrupt

fun is_Exception :: "exn \<Rightarrow> bool" where
  "is_Exception (SystemExit code) = False"
| "is_Exception KeyboardInterrupt = False"
| "is_Exception e = True"

text \<open>
  Every \<open>print\<close> call of the script is one constructor: it stands for the fixed text
  of that line and carries the values its f-string interpolates.
\<close>

datatype msg =
    M_Banner
  | M_StartingOllama
  | M_OllamaStarted
  | M_OllamaMaybeNot
  | M_OllamaNotFound
  | M_OllamaFailed exn
  | M_OllamaAlreadyRunning
  | M_SkipOllama
  | M_PortInUse string int
  | M_DirNotFound string string
  | M_Starting string int
  | M_FailedToStart string exn
  | M_SkipFrontend
  | M_Waiting
  | M_StatusHeader
  | M_Rule
  | M_StatusUp string int
  | M_StatusDown string int
  | M_AllRunning
  | M_OpenBrowser
  | M_PressCtrlC
  | M_SomeFailed
  | M_CheckWindows
  | M_ShuttingDown
  | M_AllStopped

datatype stream = INHERIT | PIPE | DEVNULL

text \<open>The arguments of one \<open>subprocess.Popen\<close> call.\<close>

record popen_req =
  p_args :: "string list"
  p_cwd :: "string option"
  p_new_console :: bool
  p_shell :: bool
  p_stdout :: stream
  p_stderr :: stream

text \<open>
  What the script does to the outside world, in the order it does it. A child process
  is known by its pid; durations are in milliseconds.
\<close>

datatype event =
    E_Print msg
  | E_Connect int
  | E_UrlOpen
  | E_Popen popen_req
  | E_Sleep nat
  | E_Terminate nat
  | E_Wait nat nat
  | E_Kill nat

datatype handler = SIG_DFL | H_cleanup

text \<open>
  The operating system as the script sees it. Each field answers one library call:
  \<open>os_connect_ex\<close> is \<open>s.connect_ex(('localhost', port))\<close> begun at a clock time (an
  error number, 0 for a connection, or an exception such as \<open>OverflowError\<close> for a port
  outside 0..65535), \<open>os_urlopen\<close> is the request to \<open>http://localhost:11434/api/tags\<close>
  (an HTTP status or an exception), \<open>os_popen\<close> gives the child's pid or the exception
  \<open>Popen\<close> raises, and \<open>os_terminate\<close>, \<open>os_wait\<close> (by pid and timeout in seconds) and
  \<open>os_kill\<close> give the exception the call raises, if any. A connection attempt and a
  request take a fixed time each.
\<close>

record env =
  platform :: string
  PROJECT_ROOT :: string
  os_connect_ex :: "int \<Rightarrow> int \<Rightarrow> exn + int"
  connect_ms :: nat
  os_urlopen :: "int \<Rightarrow> exn + int"
  urlopen_ms :: nat
  os_path_exists :: "string \<Rightarrow> bool"
  os_popen :: "popen_req \<Rightarrow> exn + nat"
  os_terminate :: "nat \<Rightarrow> exn option"
  os_wait :: "nat \<Rightarrow> nat \<Rightarrow> exn option"
  os_kill :: "nat \<Rightarrow> exn option"

text \<open>
  The state the script changes: the clock (\<open>time.time()\<close>, in milliseconds), the effects
  so far, the sockets it holds open, the module-level list \<open>running_processes\<close> and the
  handlers installed for SIGINT and SIGTERM.
\<close>

record world =
  clock :: int
  trace :: "event list"
  open_sockets :: nat
  running_processes :: "nat list"
  sigint :: handler
  sigterm :: handler

definition emit :: "event \<Rightarrow> world \<Rightarrow> world" where
  "emit e w = w\<lparr>trace := trace w @ [e]\<rparr>"

definition py_print :: "msg \<Rightarrow> world \<Rightarrow> world" where
  "py_print m w = emit (E_Print m) w"

definition sleep :: "nat \<Rightarrow> world \<Rightarrow> world" where
  \<comment> \<open>\<open>time.sleep\<close>, taken to last exactly as long as asked\<close>
  "sleep ms w = emit (E_Sleep ms) (w\<lparr>clock := clock w + int ms\<rparr>)"

definition spawn_requests :: "event list \<Rightarrow> popen_req list" where
  "spawn_requests es = concat (map (\<lambda>e. case e of E_Popen r \<Rightarrow> [r] | _ \<Rightarrow> []) es)"

definition terminate_requests :: "event list \<Rightarrow> nat list" where
  "terminate_requests es = concat (map (\<lambda>e. case e of E_Terminate p \<Rightarrow> [p] | _ \<Rightarrow> []) es)"

definition connects :: "event list \<Rightarrow> int list" where
  "connects es = concat (map (\<lambda>e. case e of E_Connect p \<Rightarrow> [p] | _ \<Rightarrow> []) es)"

definition printed :: "event list \<Rightarrow> msg list" where
  "printed es = concat (map (\<lambda>e. case e of E_Print m \<Rightarrow> [m] | _ \<Rightarrow> []) es)"

subsection \<open>Service configurations\<close>

record config =
  cfg_name :: string
  cfg_port :: int
  cfg_cwd :: string
  cmd_windows :: "string list"
  cmd_unix :: "string list"
  health_url :: string

text \<open>
  Paths are shown as \<open>str\<close> shows them. \<open>PROJECT_ROOT\<close> is an absolute path;
  \<open>Path / "part"\<close> puts the separator of the platform before the part, unless the path
  is a root and ends in the separator already.
\<close>

definition path_sep :: "env \<Rightarrow> string" where
  "path_sep env = (if platform env = ''win32'' then [CHR 0x5C] else ''/'')"

definition path_div :: "env \<Rightarrow> string \<Rightarrow> string \<Rightarrow> string" where
  "path_div env p part =
     (if p \<noteq> [] \<and> [last p] = path_sep env then p @ part
      else p @ path_sep env @ part)"

text \<open>
  The names begin with an emoji, kept here as its UTF-8 bytes (U+1F9E0, U+1F344 and
  U+1F310).
\<close>

definition ml_api_config :: "env \<Rightarrow> config" where
  "ml_api_config env =
     \<lparr> cfg_name = [CHR 0xF0, CHR 0x9F, CHR 0xA7, CHR 0xA0] @ '' ML Yield Predictor'',
       cfg_port = 3002,
       cfg_cwd = path_div env (path_div env (PROJECT_ROOT env) ''Backend'') ''ML model'',
       cmd_windows = [''python'', ''ml_api.py''], cmd_unix = [''python3'', ''ml_api.py''],
       health_url = ''http://localhost:3002/api/health'' \<rparr>"

definition chatbot_backend_config :: "env \<Rightarrow> config" where
  "chatbot_backend_config env =
     \<lparr> cfg_name = [CHR 0xF0, CHR 0x9F, CHR 0x8D, CHR 0x84] @ '' Chatbot Backend'',
       cfg_port = 3001,
       cfg_cwd = path_div env (path_div env (PROJECT_ROOT env) ''Backend'') ''server'',
       cmd_windows = [''npm'', ''run'', ''dev''], cmd_unix = [''npm'', ''run'', ''dev''],
       health_url = ''http://localhost:3001/api/health'' \<rparr>"

definition frontend_config :: "env \<Rightarrow> config" where
  "frontend_config env =
     \<lparr> cfg_name = [CHR 0xF0, CHR 0x9F, CHR 0x8C, CHR 0x90] @ '' Frontend (AWS_test)'',
       cfg_port = 5173,
       cfg_cwd = path_div env (PROJECT_ROOT env) ''AWS_test'',
       cmd_windows = [''npm'', ''run'', ''dev''], cmd_unix = [''npm'', ''run'', ''dev''],
       health_url = ''http://localhost:5173'' \<rparr>"

definition SERVICES :: "env \<Rightarrow> string \<rightharpoonup> config" where
  "SERVICES env =
     [ ''ml_api'' \<mapsto> ml_api_config env,
       ''chatbot_backend'' \<mapsto> chatbot_backend_config env,
       ''frontend'' \<mapsto> frontend_config env ]"

subsection \<open>\<open>is_port_in_use\<close> and \<open>check_ollama\<close>\<close>

definition is_port_in_use :: "env \<Rightarrow> int \<Rightarrow> world \<Rightarrow> (exn + bool) \<times> world" where
  \<comment> \<open>the \<open>with\<close> block opens a socket and closes it on the way out, by return or by raise\<close>
  "is_port_in_use env port w =
     (let w1 = w\<lparr>open_sockets := Suc (open_sockets w)\<rparr>;
          r = os_connect_ex env (clock w1) port;
          w2 = emit (E_Connect port) (w1\<lparr>clock := clock w1 + int (connect_ms env)\<rparr>);
          w3 = w2\<lparr>open_sockets := open_sockets w2 - 1\<rparr>
      in case r of
           Inl e \<Rightarrow> (Inl e, w3)
         | Inr code \<Rightarrow> (Inr (code = 0), w3))"

definition check_ollama :: "env \<Rightarrow> world \<Rightarrow> bool \<times> world" where
  \<comment> \<open>the bare \<open>except:\<close> turns every exception into \<open>False\<close>\<close>
  "check_ollama env w =
     (let r = os_urlopen env (clock w);
          w1 = emit E_UrlOpen (w\<lparr>clock := clock w + int (urlopen_ms env)\<rparr>)
      in case r of
           Inl e \<Rightarrow> (False, w1)
         | Inr status \<Rightarrow> (status = 200, w1))"

subsection \<open>\<open>start_ollama\<close>\<close>

definition ollama_req :: "env \<Rightarrow> popen_req" where
  \<comment> \<open>the two \<open>Popen(["ollama", "serve"], ...)\<close> calls, by platform\<close>
  "ollama_req env =
     (if platform env = ''win32'' then
        \<lparr> p_args = [''ollama'', ''serve''], p_cwd = None, p_new_console = True,
          p_shell = False, p_stdout = DEVNULL, p_stderr = DEVNULL \<rparr>
      else
        \<lparr> p_args = [''ollama'', ''serve''], p_cwd = None, p_new_console = False,
          p_shell = False, p_stdout = DEVNULL, p_stderr = DEVNULL \<rparr>)"

definition start_ollama :: "env \<Rightarrow> world \<Rightarrow> (exn + bool) \<times> world" where
  "start_ollama env w =
     (let w1 = py_print M_StartingOllama w;
          w2 = emit (E_Popen (ollama_req env)) w1
      in case os_popen env (ollama_req env) of
           Inr child \<Rightarrow>
             (let w3 = sleep 3000 w2;
                  r = check_ollama env w3
              in if fst r then (Inr True, py_print M_OllamaStarted (snd r))
                 else (Inr False, py_print M_OllamaMaybeNot (snd r)))
         | Inl e \<Rightarrow>
             if e = FileNotFoundError then (Inr False, py_print M_OllamaNotFound w2)
             else if is_Exception e then (Inr False, py_print (M_OllamaFailed e) w2)
             else (Inl e, w2))"

subsection \<open>\<open>start_service\<close>\<close>

definition service_req :: "env \<Rightarrow> config \<Rightarrow> popen_req" where
  \<comment> \<open>the command chosen by platform, and the two \<open>Popen(cmd, cwd=str(cwd), ...)\<close> calls\<close>
  "service_req env config =
     (let cmd = (if platform env = ''win32'' then cmd_windows config else cmd_unix config)
      in if platform env = ''win32'' then
           \<lparr> p_args = cmd, p_cwd = Some (cfg_cwd config), p_new_console = True,
             p_shell = True, p_stdout = INHERIT, p_stderr = INHERIT \<rparr>
         else
           \<lparr> p_args = cmd, p_cwd = Some (cfg_cwd config), p_new_console = False,
             p_shell = False, p_stdout = PIPE, p_stderr = PIPE \<rparr>)"

definition start_service :: "env \<Rightarrow> string \<Rightarrow> config \<Rightarrow> world \<Rightarrow> (exn + nat option) \<times> world" where
  "start_service env service_key config w =
     (let name = cfg_name config; port = cfg_port config; cwd = cfg_cwd config;
          r = is_port_in_use env port w
      in case fst r of
           Inl e \<Rightarrow> (Inl e, snd r)
         | Inr in_use \<Rightarrow>
             if in_use then (Inr None, py_print (M_PortInUse name port) (snd r))
             else if \<not> os_path_exists env cwd then
               (Inr None, py_print (M_DirNotFound name cwd) (snd r))
             else
               (let w1 = py_print (M_Starting name port) (snd r);
                    w2 = emit (E_Popen (service_req env config)) w1
                in case os_popen env (service_req env config) of
                     Inr process \<Rightarrow> (Inr (Some process), w2)
                   | Inl e \<Rightarrow>
                       if is_Exception e then
                         (Inr None, py_print (M_FailedToStart name e) w2)
                       else (Inl e, w2)))"

subsection \<open>\<open>wait_for_service\<close>\<close>




text \<open>
  The polls of \<open>wait_for_service\<close>: poll number \<open>k\<close> begins \<open>k\<close> rounds of one connection
  attempt and one \<open>time.sleep(0.5)\<close> after the state \<open>w\<close>. It finds the port open for the
  loop started at \<open>start_time\<close> when it begins before the timeout (in seconds) has
  elapsed, the connection succeeds, and no earlier poll raised.
\<close>

definition poll_time :: "env \<Rightarrow> world \<Rightarrow> nat \<Rightarrow> int" where
  "poll_time env w k = clock w + int k * (int (connect_ms env) + 500)"


subsection \<open>\<open>cleanup\<close>\<close>

definition force_kill :: "env \<Rightarrow> nat \<Rightarrow> world \<Rightarrow> world" where
  \<comment> \<open>the handler of the outer \<open>try\<close>: \<open>proc.kill()\<close>, whatever it raises is passed over\<close>
  "force_kill env proc w =
     (let w1 = emit (E_Kill proc) w
      in case os_kill env proc of
           None \<Rightarrow> w1
         | Some e \<Rightarrow> w1)"

definition cleanup_proc :: "env \<Rightarrow> world \<Rightarrow> nat \<Rightarrow> world" where
  \<comment> \<open>one pass of the loop body; the bare \<open>except:\<close> catches whatever either call raises\<close>
  "cleanup_proc env w proc =
     (let w1 = emit (E_Terminate proc) w
      in case os_terminate env proc of
           Some e \<Rightarrow> force_kill env proc w1
         | None \<Rightarrow>
             (let w2 = emit (E_Wait proc 5) w1
              in case os_wait env proc 5 of
                   Some e \<Rightarrow> force_kill env proc w2
                 | None \<Rightarrow> w2))"

definition cleanup :: "env \<Rightarrow> world \<Rightarrow> exn \<times> world" where
  \<comment> \<open>\<open>sys.exit(0)\<close> raises \<open>SystemExit(0)\<close>: the function never returns normally\<close>
  "cleanup env w =
     (let w1 = py_print M_ShuttingDown w;
          w2 = foldl (cleanup_proc env) w1 (running_processes w1);
          w3 = py_print M_AllStopped w2
      in (SystemExit 0, w3))"

text \<open>
  What the shutdown sequence is to do for one tracked process, in the words of the
  specification: request termination, wait up to five seconds, and force-kill the
  process if it has not exited by then or if either step failed.
\<close>

definition teardown :: "env \<Rightarrow> nat \<Rightarrow> event list" where
  "teardown env proc =
     (if os_terminate env proc = None then
        (if os_wait env proc 5 = None then [E_Terminate proc, E_Wait proc 5]
         else [E_Terminate proc, E_Wait proc 5, E_Kill proc])
      else [E_Terminate proc, E_Kill proc])"

subsection \<open>A signal during \<open>cleanup\<close>\<close>

text \<open>
  Python runs a signal handler in the main thread, in the middle of whatever the main
  thread is doing; an exception the handler raises comes out of the interrupted call.
  \<open>deliver\<close> is the arrival of SIGINT under the handler installed at that moment.
\<close>

definition deliver :: "env \<Rightarrow> world \<Rightarrow> exn \<times> world" where
  "deliver env w =
     (case sigint w of
        H_cleanup \<Rightarrow> cleanup env w
      | SIG_DFL \<Rightarrow> (KeyboardInterrupt, w))"

text \<open>
  A signal that arrives while \<open>check_ollama\<close> waits for the answer of \<open>urlopen\<close>: the
  handler runs there, and what it raises is raised inside the \<open>try\<close>, where the bare
  \<open>except:\<close> turns it into \<open>False\<close>.
\<close>

definition check_ollama_irq :: "env \<Rightarrow> world \<Rightarrow> bool \<times> world" where
  "check_ollama_irq env w =
     (let w1 = emit E_UrlOpen w;
          r = deliver env w1
      in case fst r of
           e \<Rightarrow> (False, snd r))"

text \<open>
  \<open>cleanup\<close> with further interrupts: \<open>irq\<close> lists the processes during whose
  \<open>proc.wait(timeout=5)\<close> a signal arrives. The handler runs to its end there and the
  exception it raises is raised inside the \<open>try\<close>, where the bare \<open>except:\<close> catches it
  as it catches a timeout.
\<close>

definition cleanup_proc_irq :: "env \<Rightarrow> nat list \<Rightarrow> world \<Rightarrow> nat \<Rightarrow> world" where
  "cleanup_proc_irq env irq w proc =
     (let w1 = emit (E_Terminate proc) w
      in case os_terminate env proc of
           Some e \<Rightarrow> force_kill env proc w1
         | None \<Rightarrow>
             (let w2 = emit (E_Wait proc 5) w1
              in if proc \<in> set irq then force_kill env proc (snd (deliver env w2))
                 else case os_wait env proc 5 of
                        Some e \<Rightarrow> force_kill env proc w2
                      | None \<Rightarrow> w2))"

definition cleanup_irq :: "env \<Rightarrow> nat list \<Rightarrow> world \<Rightarrow> exn \<times> world" where
  "cleanup_irq env irq w =
     (let w1 = py_print M_ShuttingDown w;
          w2 = foldl (cleanup_proc_irq env irq) w1 (running_processes w1);
          w3 = py_print M_AllStopped w2
      in (SystemExit 0, w3))"

text \<open>
  The effects of one pass of the loop of \<open>cleanup_irq\<close>, written out: an interrupted
  wait holds a whole run of the handler.
\<close>

definition teardown_irq :: "env \<Rightarrow> nat list \<Rightarrow> world \<Rightarrow> nat \<Rightarrow> event list" where
  "teardown_irq env irq w proc =
     (if os_terminate env proc = None \<and> proc \<in> set irq then
        [E_Terminate proc, E_Wait proc 5]
          @ (if sigint w = H_cleanup then
               [E_Print M_ShuttingDown] @ concat (map (teardown env) (running_processes w))
                 @ [E_Print M_AllStopped]
             else [])
          @ [E_Kill proc]
      else teardown env proc)"

subsection \<open>\<open>main\<close>\<close>

record args =
  no_frontend :: bool
  no_ollama :: bool

definition main_ollama :: "env \<Rightarrow> args \<Rightarrow> world \<Rightarrow> (exn + unit) \<times> world" where
  \<comment> \<open>the block "Check/start Ollama"; the value of \<open>start_ollama()\<close> is not used\<close>
  "main_ollama env a w =
     (if \<not> no_ollama a then
        (let r = check_ollama env w
         in if fst r then (Inr (), py_print M_OllamaAlreadyRunning (snd r))
            else (let s = start_ollama env (snd r)
                  in case fst s of
                       Inl e \<Rightarrow> (Inl e, snd s)
                     | Inr started \<Rightarrow> (Inr (), snd s)))
      else (Inr (), py_print M_SkipOllama w))"

text \<open>
  \<open>main\<close> with a signal arriving during its first call of \<open>check_ollama\<close>: the block
  "Check/start Ollama" and the start-up sequence around it, otherwise as below.
\<close>

definition main_ollama_irq :: "env \<Rightarrow> args \<Rightarrow> world \<Rightarrow> (exn + unit) \<times> world" where
  "main_ollama_irq env a w =
     (if \<not> no_ollama a then
        (let r = check_ollama_irq env w
         in if fst r then (Inr (), py_print M_OllamaAlreadyRunning (snd r))
            else (let s = start_ollama env (snd r)
                  in case fst s of
                       Inl e \<Rightarrow> (Inl e, snd s)
                     | Inr started \<Rightarrow> (Inr (), snd s)))
      else (Inr (), py_print M_SkipOllama w))"

definition start_and_track :: "env \<Rightarrow> string \<Rightarrow> config \<Rightarrow> world \<Rightarrow> (exn + bool) \<times> world" where
  \<comment> \<open>\<open>proc = start_service(key, SERVICES[key])\<close>, then \<open>running_processes.append(proc)\<close>
      if \<open>proc\<close> is a process; the result says whether it was\<close>
  "start_and_track env service_key config w =
     (let r = start_service env service_key config w
      in case fst r of
           Inl e \<Rightarrow> (Inl e, snd r)
         | Inr None \<Rightarrow> (Inr False, snd r)
         | Inr (Some proc) \<Rightarrow>
             (Inr True, (snd r)\<lparr>running_processes := running_processes (snd r) @ [proc]\<rparr>))"

fun check_services :: "env \<Rightarrow> (string \<times> int) list \<Rightarrow> bool \<Rightarrow> world \<Rightarrow> (exn + bool) \<times> world" where
  "check_services env [] all_ok w = (Inr all_ok, w)"
| "check_services env ((name, port) # rest) all_ok w =
     (let r = is_port_in_use env port w
      in case fst r of
           Inl e \<Rightarrow> (Inl e, snd r)
         | Inr in_use \<Rightarrow>
             if in_use then check_services env rest all_ok (py_print (M_StatusUp name port) (snd r))
             else check_services env rest False (py_print (M_StatusDown name port) (snd r)))"

definition main_status :: "env \<Rightarrow> args \<Rightarrow> world \<Rightarrow> (exn + unit) \<times> world" where
  \<comment> \<open>from "Wait for services to be ready" to the last \<open>print\<close> before the idle loop\<close>
  "main_status env a w =
     (let w1 = sleep 3000 (py_print M_Waiting w);
          w2 = py_print M_Rule (py_print M_StatusHeader w1);
          services_to_check =
            [(''ML API'', 3002), (''Chatbot Backend'', 3001), (''Ollama'', 11434)]
              @ (if \<not> no_frontend a then [(''Frontend'', 5173)] else []);
          r = check_services env services_to_check True w2
      in case fst r of
           Inl e \<Rightarrow> (Inl e, snd r)
         | Inr all_ok \<Rightarrow>
             (let w3 = py_print M_Rule (snd r)
              in if all_ok then
                   (Inr (), py_print M_PressCtrlC (py_print M_OpenBrowser (py_print M_AllRunning w3)))
                 else (Inr (), py_print M_CheckWindows (py_print M_SomeFailed w3))))"

definition main_services :: "env \<Rightarrow> args \<Rightarrow> world \<Rightarrow> (exn + unit) \<times> world" where
  \<comment> \<open>"Start ML API", "Start Chatbot Backend", "Start Frontend (unless skipped)", then
      the status report\<close>
  "main_services env a w =
     (let ml = start_and_track env ''ml_api'' (ml_api_config env) w
      in case fst ml of
           Inl e \<Rightarrow> (Inl e, snd ml)
         | Inr ml_started \<Rightarrow>
             (let w1 = (if ml_started then sleep 2000 (snd ml) else snd ml);
                  backend = start_and_track env ''chatbot_backend'' (chatbot_backend_config env) w1
              in case fst backend of
                   Inl e \<Rightarrow> (Inl e, snd backend)
                 | Inr backend_started \<Rightarrow>
                     (let w2 = (if backend_started then sleep 2000 (snd backend)
                                else snd backend)
                      in if \<not> no_frontend a then
                           (let frontend = start_and_track env ''frontend'' (frontend_config env) w2
                            in case fst frontend of
                                 Inl e \<Rightarrow> (Inl e, snd frontend)
                               | Inr frontend_started \<Rightarrow> main_status env a (snd frontend))
                         else main_status env a (py_print M_SkipFrontend w2))))"

definition main_startup :: "env \<Rightarrow> args \<Rightarrow> world \<Rightarrow> (exn + unit) \<times> world" where
  \<comment> \<open>\<open>main\<close> up to its idle loop \<open>while True: time.sleep(1)\<close>, which only a signal ends\<close>
  "main_startup env a w =
     (let w1 = w\<lparr>sigint := H_cleanup, sigterm := H_cleanup\<rparr>;
          w2 = py_print M_Banner w1;
          r = main_ollama env a w2
      in case fst r of
           Inl e \<Rightarrow> (Inl e, snd r)
         | Inr u \<Rightarrow> main_services env a (snd r))"

definition main_startup_irq :: "env \<Rightarrow> args \<Rightarrow> world \<Rightarrow> (exn + unit) \<times> world" where
  "main_startup_irq env a w =
     (let w1 = w\<lparr>sigint := H_cleanup, sigterm := H_cleanup\<rparr>;
          w2 = py_print M_Banner w1;
          r = main_ollama_irq env a w2
      in case fst r of
           Inl e \<Rightarrow> (Inl e, snd r)
         | Inr u \<Rightarrow> main_services env a (snd r))"

subsection \<open>Concrete environments\<close>

text \<open>
  A quiet Linux machine: every port refuses the connection (error 111), the Ollama
  endpoint does not answer, every directory exists, every spawn succeeds with pid 4242
  and every child exits as soon as it is asked to.
\<close>

definition quiet_env :: env where
  "quiet_env =
     \<lparr> platform = ''linux'', PROJECT_ROOT = ''/srv/datanyx'',
       os_connect_ex = (\<lambda>t port. Inr 111), connect_ms = 1,
       os_urlopen = (\<lambda>t. Inl URLError), urlopen_ms = 10,
       os_path_exists = (\<lambda>p. True),
       os_popen = (\<lambda>r. Inr 4242),
       os_terminate = (\<lambda>p. None), os_wait = (\<lambda>p t. None), os_kill = (\<lambda>p. None) \<rparr>"

definition fresh_world :: world where
  "fresh_world =
     \<lparr> clock = 0, trace = [], open_sockets = 0, running_processes = [],
       sigint = SIG_DFL, sigterm = SIG_DFL \<rparr>"

definition svc9001 :: config where
  "svc9001 =
     \<lparr> cfg_name = ''svc'', cfg_port = 9001, cfg_cwd = ''/srv/svc'',
       cmd_windows = [''svc.exe''], cmd_unix = [''./svc''],
       health_url = ''http://localhost:9001'' \<rparr>"

definition busy_env :: env where
  \<comment> \<open>something already listens on every port\<close>
  "busy_env = quiet_env\<lparr>os_connect_ex := (\<lambda>t port. Inr 0)\<rparr>"







definition stuck_env :: env where
  \<comment> \<open>process 1 ignores the termination request; \<open>terminate\<close> fails for process 2\<close>
  "stuck_env = quiet_env\<lparr>os_wait := (\<lambda>p t. if p = 1 then Some TimeoutExpired else None),
                          os_terminate := (\<lambda>p. if p = 2 then Some (OSError ''gone'') else None)\<rparr>"

definition tracking_world :: world where
  \<comment> \<open>\<open>main\<close> has installed its handlers and tracks the processes 1, 2 and 3\<close>
  "tracking_world =
     fresh_world\<lparr>running_processes := [1, 2, 3], sigint := H_cleanup, sigterm := H_cleanup\<rparr>"

definition two_tracked :: world where
  "two_tracked =
     fresh_world\<lparr>running_processes := [1, 2], sigint := H_cleanup, sigterm := H_cleanup\<rparr>"

definition default_args :: args where
  "default_args = \<lparr> no_frontend = False, no_ollama = False \<rparr>"

section \<open>Properties of the inference service\<close>

lemma prepare_features_unfolded:
  "prepare_features data =
     (let species = dict_get data ''species'' (JStr ''Oyster'') in
      [ ''humidity_pct'' \<mapsto> dict_get data ''humidity_pct'' (JInt 85),
        ''CO2_ppm'' \<mapsto> dict_get data ''co2_ppm'' (JInt 800),
        ''substrate_moisture_pct'' \<mapsto> dict_get data ''substrate_moisture'' (JInt 65),
        ''light_lux'' \<mapsto> dict_get data ''light_lux'' (JInt 200),
        ''water_quality_index'' \<mapsto> dict_get data ''water_quality_index'' (JInt 80),
        ''temp_C'' \<mapsto> dict_get data ''temperature_c'' (JInt 22),
        ''mushroom_variety_Button'' \<mapsto> JInt (if species = JStr ''Button'' then 1 else 0),
        ''mushroom_variety_Lions Mane'' \<mapsto>
           JInt (if species = JStr ''Lions Mane'' then 1 else 0),
        ''mushroom_variety_Oyster'' \<mapsto> JInt (if species = JStr ''Oyster'' then 1 else 0),
        ''mushroom_variety_Reishi'' \<mapsto> JInt (if species = JStr ''Reishi'' then 1 else 0),
        ''mushroom_variety_Shiitake'' \<mapsto>
           JInt (if species = JStr ''Shiitake'' then 1 else 0) ])"
  by (simp add: prepare_features_def MUSHROOM_VARIETIES_def one_hot_def variety_key_def Let_def)

lemma hot_varieties_prepare:
  "hot_varieties (prepare_features data) =
     filter (\<lambda>v. dict_get data ''species'' (JStr ''Oyster'') = JStr v) MUSHROOM_VARIETIES"
  by (simp add: hot_varieties_def prepare_features_unfolded Let_def MUSHROOM_VARIETIES_def
      variety_key_def)

lemma cold_varieties_prepare:
  "cold_varieties (prepare_features data) =
     filter (\<lambda>v. dict_get data ''species'' (JStr ''Oyster'') \<noteq> JStr v) MUSHROOM_VARIETIES"
  by (simp add: cold_varieties_def prepare_features_unfolded Let_def MUSHROOM_VARIETIES_def
      variety_key_def)

lemma length_filter_species:
  "length (filter (\<lambda>v. s = JStr v) MUSHROOM_VARIETIES) =
     (if s \<in> set (map JStr MUSHROOM_VARIETIES) then 1 else 0)"
  by (auto simp: MUSHROOM_VARIETIES_def)

text \<open>
  C9. \<open>classify_yield\<close> is defined on every integer and returns one of the four
  categories: 6 gives HIGH, 5 gives GOOD, 4 gives MEDIUM and every other integer gives
  LOW (7, outside the documented range 3 to 6, included); the returned record carries
  the input \<open>harvest_cycle\<close> unchanged.
\<close>

theorem classify_yield_four_way:
  "category (classify_yield hc) =
     (if hc = 6 then ''HIGH'' else if hc = 5 then ''GOOD''
      else if hc = 4 then ''MEDIUM'' else ''LOW'')
   \<and> category (classify_yield hc) \<in> {''HIGH'', ''GOOD'', ''MEDIUM'', ''LOW''}
   \<and> harvest_cycle (classify_yield hc) = hc
   \<and> category (classify_yield 7) = ''LOW''"
  by (simp add: classify_yield_def)

text \<open>
  C10. \<open>prepare_features\<close> returns a feature dictionary for every input dictionary (the
  body only calls \<open>dict.get\<close>, compares with \<open>==\<close> and stores items, none of which can
  raise on a dictionary of JSON values, so the model has no error branch). Each of the
  six environmental fields holds the value supplied under its request key, or its fixed
  default when the key is missing, and a missing species counts as Oyster. Each of the
  five one-hot fields is 0 or 1; exactly one of them is 1 when the species is one of the
  five known varieties, and all five are 0 for any other species.
\<close>

theorem prepare_features_defaults_one_hot:
  "prepare_features data ''humidity_pct'' =
     Some (case data ''humidity_pct'' of None \<Rightarrow> JInt 85 | Some v \<Rightarrow> v)
   \<and> prepare_features data ''CO2_ppm'' =
     Some (case data ''co2_ppm'' of None \<Rightarrow> JInt 800 | Some v \<Rightarrow> v)
   \<and> prepare_features data ''substrate_moisture_pct'' =
     Some (case data ''substrate_moisture'' of None \<Rightarrow> JInt 65 | Some v \<Rightarrow> v)
   \<and> prepare_features data ''light_lux'' =
     Some (case data ''light_lux'' of None \<Rightarrow> JInt 200 | Some v \<Rightarrow> v)
   \<and> prepare_features data ''water_quality_index'' =
     Some (case data ''water_quality_index'' of None \<Rightarrow> JInt 80 | Some v \<Rightarrow> v)
   \<and> prepare_features data ''temp_C'' =
     Some (case data ''temperature_c'' of None \<Rightarrow> JInt 22 | Some v \<Rightarrow> v)
   \<and> hot_varieties (prepare_features data) =
     filter (\<lambda>v. (case data ''species'' of None \<Rightarrow> JStr ''Oyster'' | Some s \<Rightarrow> s) = JStr v)
       MUSHROOM_VARIETIES
   \<and> length (hot_varieties (prepare_features data)) =
     (if (case data ''species'' of None \<Rightarrow> JStr ''Oyster'' | Some s \<Rightarrow> s)
           \<in> set (map JStr MUSHROOM_VARIETIES)
      then 1 else 0)
   \<and> length (hot_varieties (prepare_features data))
       + length (cold_varieties (prepare_features data)) = 5"
proof -
  have fields:
    "prepare_features data ''humidity_pct'' = Some (dict_get data ''humidity_pct'' (JInt 85))"
    "prepare_features data ''CO2_ppm'' = Some (dict_get data ''co2_ppm'' (JInt 800))"
    "prepare_features data ''substrate_moisture_pct'' =
       Some (dict_get data ''substrate_moisture'' (JInt 65))"
    "prepare_features data ''light_lux'' = Some (dict_get data ''light_lux'' (JInt 200))"
    "prepare_features data ''water_quality_index'' =
       Some (dict_get data ''water_quality_index'' (JInt 80))"
    "prepare_features data ''temp_C'' = Some (dict_get data ''temperature_c'' (JInt 22))"
    by (simp_all add: prepare_features_unfolded Let_def)
  have hot: "length (hot_varieties (prepare_features data)) =
      (if dict_get data ''species'' (JStr ''Oyster'') \<in> set (map JStr MUSHROOM_VARIETIES)
       then 1 else 0)"
    unfolding hot_varieties_prepare by (rule length_filter_species)
  have both: "length (hot_varieties (prepare_features data))
      + length (cold_varieties (prepare_features data)) = 5"
    unfolding hot_varieties_prepare cold_varieties_prepare
    by (simp add: sum_length_filter_compl MUSHROOM_VARIETIES_def)
  show ?thesis
    using fields hot both hot_varieties_prepare [of data]
    by (simp add: dict_get_def)
qed

section \<open>Properties of the process supervisor\<close>

text \<open>The three keys \<open>main\<close> looks up in \<open>SERVICES\<close> are there.\<close>

lemma SERVICES_lookup:
  "SERVICES env ''ml_api'' = Some (ml_api_config env)"
  "SERVICES env ''chatbot_backend'' = Some (chatbot_backend_config env)"
  "SERVICES env ''frontend'' = Some (frontend_config env)"
  by (simp_all add: SERVICES_def)

lemma is_port_in_use_world:
  "snd (is_port_in_use env port w) =
     w\<lparr>clock := clock w + int (connect_ms env), trace := trace w @ [E_Connect port]\<rparr>"
  by (simp add: is_port_in_use_def emit_def Let_def split: sum.splits)

lemma is_port_in_use_value:
  "fst (is_port_in_use env port w) =
     (case os_connect_ex env (clock w) port of Inl e \<Rightarrow> Inl e | Inr code \<Rightarrow> Inr (code = 0))"
  by (simp add: is_port_in_use_def Let_def split: sum.splits)

lemma check_ollama_world:
  "snd (check_ollama env w) =
     w\<lparr>clock := clock w + int (urlopen_ms env), trace := trace w @ [E_UrlOpen]\<rparr>"
  by (simp add: check_ollama_def emit_def Let_def split: sum.splits)


text \<open>
  C5. \<open>is_port_in_use\<close> returns \<open>True\<close> exactly when the connection attempt to
  \<open>localhost:port\<close> succeeds (\<open>connect_ex\<close> returns 0) and \<open>False\<close> exactly when
  \<open>connect_ex\<close> returns an error number (connection refused, timed out, unreachable);
  a closed port is such an error number, so nothing is raised for it: the function
  raises only what \<open>connect_ex\<close> itself raises. Afterwards the socket is closed again,
  and but for the attempt and the time it took the state is as before.
\<close>

theorem is_port_in_use_probe:
  "(fst (is_port_in_use env port w) = Inr True) = (os_connect_ex env (clock w) port = Inr 0)
   \<and> (fst (is_port_in_use env port w) = Inr False) =
       (\<exists>code. code \<noteq> 0 \<and> os_connect_ex env (clock w) port = Inr code)
   \<and> (fst (is_port_in_use env port w) = Inl e) = (os_connect_ex env (clock w) port = Inl e)
   \<and> snd (is_port_in_use env port w) =
       w\<lparr>clock := clock w + int (connect_ms env), trace := trace w @ [E_Connect port]\<rparr>"
  unfolding is_port_in_use_world is_port_in_use_value
  by (auto split: sum.splits)

lemma spawn_requests_append [simp]:
  "spawn_requests (xs @ ys) = spawn_requests xs @ spawn_requests ys"
  by (simp add: spawn_requests_def)

lemma spawn_requests_simps [simp]:
  "spawn_requests [] = []"
  "spawn_requests (E_Print m # es) = spawn_requests es"
  "spawn_requests (E_Connect p # es) = spawn_requests es"
  "spawn_requests (E_UrlOpen # es) = spawn_requests es"
  "spawn_requests (E_Popen r # es) = r # spawn_requests es"
  "spawn_requests (E_Sleep n # es) = spawn_requests es"
  "spawn_requests (E_Terminate k # es) = spawn_requests es"
  "spawn_requests (E_Wait k n # es) = spawn_requests es"
  "spawn_requests (E_Kill k # es) = spawn_requests es"
  by (simp_all add: spawn_requests_def)

text \<open>
  C1. When the port of a service is already open at the time of the call,
  \<open>start_service\<close> returns \<open>None\<close> after printing the port-in-use line (the skipped
  outcome), and it makes no \<open>Popen\<close> call: no process is spawned.
\<close>

theorem start_service_skips_open_port:
  assumes "fst (is_port_in_use env (cfg_port config) w) = Inr True"
  shows "fst (start_service env service_key config w) = Inr None
    \<and> trace (snd (start_service env service_key config w)) =
        trace w @ [E_Connect (cfg_port config),
                   E_Print (M_PortInUse (cfg_name config) (cfg_port config))]
    \<and> spawn_requests (trace (snd (start_service env service_key config w))) =
        spawn_requests (trace w)"
  using assms
  by (simp add: start_service_def Let_def is_port_in_use_world py_print_def emit_def)

theorem start_service_skips_open_port_witness:
  "fst (is_port_in_use busy_env (cfg_port svc9001) fresh_world) = Inr True
   \<and> fst (start_service busy_env ''svc'' svc9001 fresh_world) = Inr None
   \<and> trace (snd (start_service busy_env ''svc'' svc9001 fresh_world)) =
        [E_Connect 9001, E_Print (M_PortInUse ''svc'' 9001)]
   \<and> spawn_requests (trace (snd (start_service busy_env ''svc'' svc9001 fresh_world))) = []"
proof -
  have open_port: "fst (is_port_in_use busy_env (cfg_port svc9001) fresh_world) = Inr True"
    by (simp add: is_port_in_use_value busy_env_def quiet_env_def)
  show ?thesis
    using open_port start_service_skips_open_port [OF open_port, of "''svc''"]
    by (simp add: svc9001_def fresh_world_def)
qed





lemma printed_append [simp]: "printed (xs @ ys) = printed xs @ printed ys"
  by (simp add: printed_def)

lemma printed_simps [simp]:
  "printed [] = []"
  "printed (E_Print m # es) = m # printed es"
  "printed (E_Connect p # es) = printed es"
  "printed (E_UrlOpen # es) = printed es"
  "printed (E_Popen r # es) = printed es"
  "printed (E_Sleep n # es) = printed es"
  "printed (E_Terminate k # es) = printed es"
  "printed (E_Wait k n # es) = printed es"
  "printed (E_Kill k # es) = printed es"
  by (simp_all add: printed_def)



lemma cleanup_proc_trace:
  "cleanup_proc env w proc = w\<lparr>trace := trace w @ teardown env proc\<rparr>"
  by (simp add: cleanup_proc_def teardown_def force_kill_def emit_def Let_def
      split: option.splits)

lemma foldl_cleanup_proc:
  "foldl (cleanup_proc env) w procs = w\<lparr>trace := trace w @ concat (map (teardown env) procs)\<rparr>"
  by (induction procs arbitrary: w) (simp_all add: cleanup_proc_trace)

lemma cleanup_unfolded:
  "cleanup env w =
     (SystemExit 0,
      w\<lparr>trace := trace w @ [E_Print M_ShuttingDown]
           @ concat (map (teardown env) (running_processes w)) @ [E_Print M_AllStopped]\<rparr>)"
  by (simp add: cleanup_def Let_def foldl_cleanup_proc py_print_def emit_def)

lemma terminate_requests_append [simp]:
  "terminate_requests (xs @ ys) = terminate_requests xs @ terminate_requests ys"
  by (simp add: terminate_requests_def)

lemma terminate_requests_simps [simp]:
  "terminate_requests [] = []"
  "terminate_requests (E_Print m # es) = terminate_requests es"
  "terminate_requests (E_Connect p # es) = terminate_requests es"
  "terminate_requests (E_UrlOpen # es) = terminate_requests es"
  "terminate_requests (E_Popen r # es) = terminate_requests es"
  "terminate_requests (E_Sleep n # es) = terminate_requests es"
  "terminate_requests (E_Terminate k # es) = k # terminate_requests es"
  "terminate_requests (E_Wait k n # es) = terminate_requests es"
  "terminate_requests (E_Kill k # es) = terminate_requests es"
  by (simp_all add: terminate_requests_def)

lemma terminate_requests_teardown [simp]: "terminate_requests (teardown env proc) = [proc]"
  by (simp add: teardown_def)

lemma terminate_requests_teardowns [simp]:
  "terminate_requests (concat (map (teardown env) procs)) = procs"
  by (induction procs) simp_all

lemma printed_teardown [simp]: "printed (teardown env proc) = []"
  by (simp add: teardown_def)

lemma printed_teardowns [simp]: "printed (concat (map (teardown env) procs)) = []"
  by (induction procs) simp_all

text \<open>
  What \<open>cleanup\<close> does by itself. Whatever the tracked processes are and however their
  \<open>terminate\<close>, \<open>wait\<close> and \<open>kill\<close> calls end, it goes through \<open>running_processes\<close> in
  insertion order; for each process it requests termination and waits up to 5 seconds,
  and it kills the process exactly when it has not exited by then or one of the two
  calls raised; an exception for one process does not keep the later ones from their
  turn; the list is left as it was; and at the end \<open>sys.exit(0)\<close> raises
  \<open>SystemExit(0)\<close>, with an empty list too, where nothing but the two lines is printed.
\<close>

lemma cleanup_teardown_in_order:
  "fst (cleanup env w) = SystemExit 0
   \<and> trace (snd (cleanup env w)) =
       trace w @ [E_Print M_ShuttingDown]
         @ concat (map (teardown env) (running_processes w)) @ [E_Print M_AllStopped]
   \<and> terminate_requests (trace (snd (cleanup env w))) =
       terminate_requests (trace w) @ running_processes w
   \<and> running_processes (snd (cleanup env w)) = running_processes w
   \<and> (E_Kill proc \<in> set (teardown env proc)) =
       (\<not> (os_terminate env proc = None \<and> os_wait env proc 5 = None))
   \<and> cleanup env (w\<lparr>running_processes := []\<rparr>) =
       (SystemExit 0,
        w\<lparr>running_processes := [],
           trace := trace w @ [E_Print M_ShuttingDown, E_Print M_AllStopped]\<rparr>)"
  by (simp add: cleanup_unfolded teardown_def)

lemma cleanup_teardown_example:
  "running_processes tracking_world = [1, 2, 3]
   \<and> os_wait stuck_env 1 5 = Some TimeoutExpired
   \<and> os_terminate stuck_env 2 = Some (OSError ''gone'')
   \<and> fst (cleanup stuck_env tracking_world) = SystemExit 0
   \<and> trace (snd (cleanup stuck_env tracking_world)) =
       [E_Print M_ShuttingDown,
        E_Terminate 1, E_Wait 1 5, E_Kill 1,
        E_Terminate 2, E_Kill 2,
        E_Terminate 3, E_Wait 3 5,
        E_Print M_AllStopped]
   \<and> terminate_requests (trace (snd (cleanup stuck_env tracking_world))) = [1, 2, 3]"
  using cleanup_teardown_in_order [of stuck_env tracking_world 1]
  by (simp add: teardown_def stuck_env_def quiet_env_def tracking_world_def fresh_world_def)

lemma check_ollama_irq_swallows:
  "check_ollama_irq env w =
     (False, snd (deliver env (w\<lparr>trace := trace w @ [E_UrlOpen]\<rparr>)))"
  by (simp add: check_ollama_irq_def Let_def emit_def)

text \<open>
  C3. \<open>cleanup\<close> ends in \<open>sys.exit(0)\<close>, but the program does not always exit. \<open>main\<close>
  installs \<open>cleanup\<close> as the signal handler before it calls \<open>check_ollama\<close>, whose
  \<open>try\<close> has a bare \<open>except:\<close> (where \<open>start_ollama\<close> and \<open>start_service\<close> write
  \<open>except Exception\<close>). A signal that arrives during the request of \<open>check_ollama\<close>,
  with nothing tracked yet, runs \<open>cleanup\<close> to its end: both lines are printed and
  \<open>SystemExit(0)\<close> is raised. The bare \<open>except:\<close> catches it, \<open>check_ollama\<close> returns
  \<open>False\<close>, and \<open>main\<close> goes on: it spawns Ollama and the three services, prints the
  status report and reaches its idle loop.
\<close>

theorem interrupt_during_check_ollama_keeps_running:
  "running_processes fresh_world = []
   \<and> fst (cleanup quiet_env (fresh_world\<lparr>sigint := H_cleanup, sigterm := H_cleanup\<rparr>))
       = SystemExit 0
   \<and> check_ollama_irq quiet_env (fresh_world\<lparr>sigint := H_cleanup, sigterm := H_cleanup\<rparr>) =
       (False,
        fresh_world\<lparr>sigint := H_cleanup, sigterm := H_cleanup,
          trace := [E_UrlOpen, E_Print M_ShuttingDown, E_Print M_AllStopped]\<rparr>)
   \<and> fst (main_startup_irq quiet_env default_args fresh_world) = Inr ()
   \<and> printed (trace (snd (main_startup_irq quiet_env default_args fresh_world))) =
       [M_Banner, M_ShuttingDown, M_AllStopped, M_StartingOllama, M_OllamaMaybeNot,
        M_Starting (cfg_name (ml_api_config quiet_env)) 3002,
        M_Starting (cfg_name (chatbot_backend_config quiet_env)) 3001,
        M_Starting (cfg_name (frontend_config quiet_env)) 5173,
        M_Waiting, M_StatusHeader, M_Rule,
        M_StatusDown ''ML API'' 3002, M_StatusDown ''Chatbot Backend'' 3001,
        M_StatusDown ''Ollama'' 11434, M_StatusDown ''Frontend'' 5173,
        M_Rule, M_SomeFailed, M_CheckWindows]
   \<and> spawn_requests (trace (snd (main_startup_irq quiet_env default_args fresh_world))) =
       [ollama_req quiet_env, service_req quiet_env (ml_api_config quiet_env),
        service_req quiet_env (chatbot_backend_config quiet_env),
        service_req quiet_env (frontend_config quiet_env)]"
  by (simp add: main_startup_irq_def main_ollama_irq_def check_ollama_irq_def deliver_def
      cleanup_unfolded start_ollama_def check_ollama_def main_services_def start_and_track_def
      start_service_def is_port_in_use_def main_status_def Let_def
      py_print_def emit_def sleep_def ml_api_config_def chatbot_backend_config_def
      frontend_config_def quiet_env_def fresh_world_def default_args_def)






lemma poll_time_0 [simp]: "poll_time env w 0 = clock w"
  by (simp add: poll_time_def)









lemma teardown_irq_trace_update [simp]:
  "teardown_irq env irq (w\<lparr>trace := t\<rparr>) = teardown_irq env irq w"
  by (rule ext) (simp add: teardown_irq_def)

lemma cleanup_proc_irq_trace:
  "cleanup_proc_irq env irq w proc = w\<lparr>trace := trace w @ teardown_irq env irq w proc\<rparr>"
  by (simp add: cleanup_proc_irq_def teardown_irq_def teardown_def deliver_def cleanup_unfolded
      force_kill_def emit_def Let_def split: option.splits handler.splits)

lemma foldl_cleanup_proc_irq:
  "foldl (cleanup_proc_irq env irq) w procs =
     w\<lparr>trace := trace w @ concat (map (teardown_irq env irq w) procs)\<rparr>"
  by (induction procs arbitrary: w) (simp_all add: cleanup_proc_irq_trace)

lemma cleanup_irq_unfolded:
  "cleanup_irq env irq w =
     (SystemExit 0,
      w\<lparr>trace := trace w @ [E_Print M_ShuttingDown]
           @ concat (map (teardown_irq env irq w) (running_processes w))
           @ [E_Print M_AllStopped]\<rparr>)"
  by (simp add: cleanup_irq_def Let_def foldl_cleanup_proc_irq py_print_def emit_def)

lemma shutdowns_teardown_irq:
  "count_list (printed (teardown_irq env irq w proc)) M_ShuttingDown =
     (if os_terminate env proc = None \<and> proc \<in> set irq \<and> sigint w = H_cleanup then 1 else 0)"
  by (simp add: teardown_irq_def)

lemma shutdowns_teardowns_irq:
  "count_list (printed (concat (map (teardown_irq env irq w) procs))) M_ShuttingDown =
     (if sigint w = H_cleanup
      then length (filter (\<lambda>p. os_terminate env p = None \<and> p \<in> set irq) procs) else 0)"
  by (induction procs) (simp_all add: shutdowns_teardown_irq)

text \<open>
  \<open>main\<close> installs \<open>cleanup\<close> as the handler of SIGINT before anything else, and nothing
  in the start-up sequence replaces it.
\<close>

lemma sigint_emit [simp]: "sigint (emit e w) = sigint w"
  by (simp add: emit_def)

lemma sigint_py_print [simp]: "sigint (py_print m w) = sigint w"
  by (simp add: py_print_def)

lemma sigint_sleep [simp]: "sigint (sleep n w) = sigint w"
  by (simp add: sleep_def)

lemma sigint_is_port_in_use [simp]: "sigint (snd (is_port_in_use env port w)) = sigint w"
  by (simp add: is_port_in_use_world)

lemma sigint_check_ollama [simp]: "sigint (snd (check_ollama env w)) = sigint w"
  by (simp add: check_ollama_world)

lemma sigint_start_ollama [simp]: "sigint (snd (start_ollama env w)) = sigint w"
  by (simp add: start_ollama_def Let_def split: sum.splits)

lemma sigint_main_ollama [simp]: "sigint (snd (main_ollama env a w)) = sigint w"
  by (simp add: main_ollama_def Let_def split: sum.splits)

lemma sigint_start_service [simp]: "sigint (snd (start_service env k config w)) = sigint w"
  by (simp add: start_service_def Let_def split: sum.splits)

lemma sigint_start_and_track [simp]: "sigint (snd (start_and_track env k config w)) = sigint w"
  by (simp add: start_and_track_def Let_def split: sum.splits option.splits)


lemma sigint_check_services [simp]:
  "sigint (snd (check_services env services all_ok w)) = sigint w"
proof (induction services arbitrary: all_ok w)
  case Nil
  show ?case by simp
next
  case (Cons s rest)
  obtain name port where s: "s = (name, port)" by (cases s)
  show ?case
  proof (cases "fst (is_port_in_use env port w)")
    case (Inl e)
    then show ?thesis by (simp add: s Let_def)
  next
    case (Inr in_use)
    then show ?thesis by (cases in_use) (simp_all add: s Let_def Cons.IH)
  qed
qed

lemma sigint_main_status [simp]: "sigint (snd (main_status env a w)) = sigint w"
proof -
  define ws where "ws = py_print M_Rule (py_print M_StatusHeader (sleep 3000 (py_print M_Waiting w)))"
  define svcs where "svcs =
      [(''ML API'', 3002::int), (''Chatbot Backend'', 3001), (''Ollama'', 11434)]
        @ (if \<not> no_frontend a then [(''Frontend'', 5173)] else [])"
  define r where "r = check_services env svcs True ws"
  have r_sig: "sigint (snd r) = sigint w"
    by (simp add: r_def ws_def)
  have unfolded: "main_status env a w =
      (case fst r of
         Inl e \<Rightarrow> (Inl e, snd r)
       | Inr all_ok \<Rightarrow>
           (if all_ok then
              (Inr (), py_print M_PressCtrlC (py_print M_OpenBrowser
                         (py_print M_AllRunning (py_print M_Rule (snd r)))))
            else (Inr (), py_print M_CheckWindows (py_print M_SomeFailed
                            (py_print M_Rule (snd r))))))"
    unfolding main_status_def Let_def r_def ws_def svcs_def ..
  show ?thesis
  proof (cases "fst r")
    case (Inl e)
    with r_sig show ?thesis by (simp add: unfolded)
  next
    case (Inr all_ok)
    with r_sig show ?thesis by (cases all_ok) (simp_all add: unfolded)
  qed
qed

lemma sigint_main_services [simp]: "sigint (snd (main_services env a w)) = sigint w"
proof -
  define ml where "ml = start_and_track env ''ml_api'' (ml_api_config env) w"
  define w1 where "w1 = (if fst ml = Inr True then sleep 2000 (snd ml) else snd ml)"
  define backend where
    "backend = start_and_track env ''chatbot_backend'' (chatbot_backend_config env) w1"
  define w2 where
    "w2 = (if fst backend = Inr True then sleep 2000 (snd backend) else snd backend)"
  define frontend where "frontend = start_and_track env ''frontend'' (frontend_config env) w2"
  have s1: "sigint (snd ml) = sigint w" by (simp add: ml_def)
  have s2: "sigint w1 = sigint w" by (simp add: w1_def s1)
  have s3: "sigint (snd backend) = sigint w" by (simp add: backend_def s2)
  have s4: "sigint w2 = sigint w" by (simp add: w2_def s3)
  have s5: "sigint (snd frontend) = sigint w" by (simp add: frontend_def s4)
  have unfolded: "main_services env a w =
      (case fst ml of
         Inl e \<Rightarrow> (Inl e, snd ml)
       | Inr ml_started \<Rightarrow>
           (case fst backend of
              Inl e \<Rightarrow> (Inl e, snd backend)
            | Inr backend_started \<Rightarrow>
                if \<not> no_frontend a then
                  (case fst frontend of
                     Inl e \<Rightarrow> (Inl e, snd frontend)
                   | Inr frontend_started \<Rightarrow> main_status env a (snd frontend))
                else main_status env a (py_print M_SkipFrontend w2)))"
    unfolding main_services_def Let_def ml_def w1_def backend_def w2_def frontend_def
    by (auto split: sum.splits)
  show ?thesis
    unfolding unfolded using s1 s3 s4 s5
    by (simp split: sum.splits)
qed

lemma main_startup_installs_cleanup:
  "sigint (snd (main_startup env a w)) = H_cleanup"
  by (simp add: main_startup_def Let_def split: sum.splits)

text \<open>
  C8 as stated fails: \<open>cleanup\<close> stays installed as the handler while it runs and has no
  guard. With processes 1 and 2 tracked, a signal during the wait for process 1 runs the
  whole of \<open>cleanup\<close> again inside the first run (both processes are asked to terminate
  a second time), its \<open>SystemExit\<close> is caught by the bare \<open>except:\<close> of the first run,
  which then kills process 1 and goes on to process 2.
\<close>

theorem second_interrupt_reruns_cleanup:
  "running_processes two_tracked = [1, 2]
   \<and> sigint two_tracked = H_cleanup
   \<and> trace (snd (cleanup_irq quiet_env [1] two_tracked)) =
       [E_Print M_ShuttingDown, E_Terminate 1, E_Wait 1 5,
          E_Print M_ShuttingDown, E_Terminate 1, E_Wait 1 5, E_Terminate 2, E_Wait 2 5,
          E_Print M_AllStopped,
        E_Kill 1, E_Terminate 2, E_Wait 2 5, E_Print M_AllStopped]
   \<and> terminate_requests (trace (snd (cleanup_irq quiet_env [1] two_tracked))) = [1, 1, 2, 2]"
  by (simp add: cleanup_irq_unfolded teardown_irq_def teardown_def two_tracked_def
      fresh_world_def quiet_env_def)

text \<open>
  C8, amended. A signal that arrives during \<open>cleanup\<close> is neither ignored nor queued.
  Every wait that is interrupted is followed by a whole run of \<open>cleanup\<close> from its start
  (the shutdown line, the teardown of every tracked process in order, the closing line),
  nested in the run in progress; the \<open>SystemExit\<close> of the nested run is caught by the
  bare \<open>except:\<close> of the outer run, which kills the process it was waiting for and goes
  on with the next one. The list of tracked processes is not changed by any of this, the
  handler stays installed, and the outer run still ends by raising \<open>SystemExit(0)\<close>.
  Without a signal this is \<open>cleanup\<close>.
\<close>

theorem cleanup_irq_not_guarded:
  "fst (cleanup_irq env irq w) = SystemExit 0
   \<and> trace (snd (cleanup_irq env irq w)) =
       trace w @ [E_Print M_ShuttingDown]
         @ concat (map (\<lambda>proc.
             if os_terminate env proc = None \<and> proc \<in> set irq then
               [E_Terminate proc, E_Wait proc 5]
                 @ (if sigint w = H_cleanup then
                      [E_Print M_ShuttingDown]
                        @ concat (map (teardown env) (running_processes w))
                        @ [E_Print M_AllStopped]
                    else [])
                 @ [E_Kill proc]
             else teardown env proc) (running_processes w))
         @ [E_Print M_AllStopped]
   \<and> running_processes (snd (cleanup_irq env irq w)) = running_processes w
   \<and> sigint (snd (cleanup_irq env irq w)) = sigint w
   \<and> count_list (printed (trace (snd (cleanup_irq env irq w)))) M_ShuttingDown =
       count_list (printed (trace w)) M_ShuttingDown + 1
         + (if sigint w = H_cleanup
            then length (filter (\<lambda>p. os_terminate env p = None \<and> p \<in> set irq)
                           (running_processes w))
            else 0)
   \<and> cleanup_irq env [] w = cleanup env w"
proof -
  have "teardown_irq env [] w = teardown env"
    by (rule ext) (simp add: teardown_irq_def)
  then have plain: "cleanup_irq env [] w = cleanup env w"
    by (simp add: cleanup_irq_unfolded cleanup_unfolded)
  have passes: "teardown_irq env irq w =
      (\<lambda>proc.
         if os_terminate env proc = None \<and> proc \<in> set irq then
           [E_Terminate proc, E_Wait proc 5]
             @ (if sigint w = H_cleanup then
                  [E_Print M_ShuttingDown]
                    @ concat (map (teardown env) (running_processes w))
                    @ [E_Print M_AllStopped]
                else [])
             @ [E_Kill proc]
         else teardown env proc)"
    by (rule ext) (simp add: teardown_irq_def)
  have tr: "trace (snd (cleanup_irq env irq w)) =
       trace w @ [E_Print M_ShuttingDown]
         @ concat (map (teardown_irq env irq w) (running_processes w))
         @ [E_Print M_AllStopped]"
    by (simp add: cleanup_irq_unfolded)
  have rest: "fst (cleanup_irq env irq w) = SystemExit 0
   \<and> running_processes (snd (cleanup_irq env irq w)) = running_processes w
   \<and> sigint (snd (cleanup_irq env irq w)) = sigint w
   \<and> count_list (printed (trace (snd (cleanup_irq env irq w)))) M_ShuttingDown =
       count_list (printed (trace w)) M_ShuttingDown + 1
         + (if sigint w = H_cleanup
            then length (filter (\<lambda>p. os_terminate env p = None \<and> p \<in> set irq)
                           (running_processes w))
            else 0)"
    by (simp add: cleanup_irq_unfolded shutdowns_teardowns_irq)
  from tr [unfolded passes] rest plain show ?thesis by blast
qed







lemma connects_append [simp]: "connects (xs @ ys) = connects xs @ connects ys"
  by (simp add: connects_def)

lemma connects_simps [simp]:
  "connects [] = []"
  "connects (E_Print m # es) = connects es"
  "connects (E_Connect p # es) = p # connects es"
  "connects (E_UrlOpen # es) = connects es"
  "connects (E_Popen r # es) = connects es"
  "connects (E_Sleep n # es) = connects es"
  "connects (E_Terminate k # es) = connects es"
  "connects (E_Wait k n # es) = connects es"
  "connects (E_Kill k # es) = connects es"
  by (simp_all add: connects_def)

lemma trace_py_print [simp]: "trace (py_print m w) = trace w @ [E_Print m]"
  by (simp add: py_print_def emit_def)

lemma trace_sleep [simp]: "trace (sleep n w) = trace w @ [E_Sleep n]"
  by (simp add: sleep_def emit_def)

lemma running_processes_py_print [simp]:
  "running_processes (py_print m w) = running_processes w"
  by (simp add: py_print_def emit_def)

lemma running_processes_sleep [simp]: "running_processes (sleep n w) = running_processes w"
  by (simp add: sleep_def emit_def)

lemma trace_is_port_in_use [simp]:
  "trace (snd (is_port_in_use env port w)) = trace w @ [E_Connect port]"
  by (simp add: is_port_in_use_world)

lemma running_processes_is_port_in_use [simp]:
  "running_processes (snd (is_port_in_use env port w)) = running_processes w"
  by (simp add: is_port_in_use_world)

text \<open>What the bootstrap leaves alone.\<close>

lemma connects_start_ollama [simp]:
  "connects (trace (snd (start_ollama env w))) = connects (trace w)"
  by (simp add: start_ollama_def Let_def check_ollama_world emit_def split: sum.splits)

lemma connects_main_ollama [simp]:
  "connects (trace (snd (main_ollama env a w))) = connects (trace w)"
  by (simp add: main_ollama_def Let_def check_ollama_world split: sum.splits)

text \<open>One service.\<close>

lemma start_service_connects [simp]:
  "connects (trace (snd (start_service env k config w))) = connects (trace w) @ [cfg_port config]"
  by (simp add: start_service_def Let_def emit_def split: sum.splits)



lemma start_and_track_connects [simp]:
  "connects (trace (snd (start_and_track env k config w))) =
     connects (trace w) @ [cfg_port config]"
  by (simp add: start_and_track_def Let_def split: sum.splits option.splits)




text \<open>The status report.\<close>

lemma check_services_spawn [simp]:
  "spawn_requests (trace (snd (check_services env services all_ok w))) =
     spawn_requests (trace w)"
proof (induction services arbitrary: all_ok w)
  case Nil
  show ?case by simp
next
  case (Cons s rest)
  obtain name port where s: "s = (name, port)" by (cases s)
  show ?case
  proof (cases "fst (is_port_in_use env port w)")
    case (Inl e)
    then show ?thesis by (simp add: s Let_def)
  next
    case (Inr in_use)
    then show ?thesis by (cases in_use) (simp_all add: s Let_def Cons.IH)
  qed
qed

lemma check_services_running [simp]:
  "running_processes (snd (check_services env services all_ok w)) = running_processes w"
proof (induction services arbitrary: all_ok w)
  case Nil
  show ?case by simp
next
  case (Cons s rest)
  obtain name port where s: "s = (name, port)" by (cases s)
  show ?case
  proof (cases "fst (is_port_in_use env port w)")
    case (Inl e)
    then show ?thesis by (simp add: s Let_def)
  next
    case (Inr in_use)
    then show ?thesis by (cases in_use) (simp_all add: s Let_def Cons.IH)
  qed
qed










end
